theory Spec2Isabelle
  imports Complex_Main "HOL-Library.Multiset"
begin

section \<open>Python values read from SQLite\<close>

text \<open>
  The comparator of \<^verbatim>\<open>db_comparator.py\<close> works on the values the \<^verbatim>\<open>sqlite3\<close> driver
  returns: \<^verbatim>\<open>None\<close>, \<^verbatim>\<open>int\<close>, \<^verbatim>\<open>float\<close>, \<^verbatim>\<open>str\<close> and \<^verbatim>\<open>bytes\<close>.
  A finite float is represented by its exact value, a rational number (Python compares
  an \<^verbatim>\<open>int\<close> and a \<^verbatim>\<open>float\<close> by exact value, so \<^verbatim>\<open>1 == 1.0\<close>); text is a
  \<^typ>\<open>string\<close>, one \<^typ>\<open>char\<close> for each code point below 256.
  \<open>PyOther ty rep\<close> stands for a value of an unhashable type (\<^verbatim>\<open>list\<close>, \<^verbatim>\<open>dict\<close>,
  \<^verbatim>\<open>set\<close>, \<^verbatim>\<open>bytearray\<close>): \<open>ty\<close> is the name of its type and \<open>rep\<close> what
  \<^verbatim>\<open>str\<close> returns for it. The driver never produces one, but the functions that take
  \<^verbatim>\<open>List[Dict]\<close> accept it.
\<close>

datatype pyval =
    PyNone
  | PyInt int
  | PyFloat rat
  | PyStr string
  | PyBytes string
  | PyOther string string

text \<open>The exceptions the modelled code can meet, each with its message.\<close>

datatype error =
    TypeError string
  | OperationalError string

fun error_text :: "error \<Rightarrow> string" where
  "error_text (TypeError m) = m"
| "error_text (OperationalError m) = m"

text \<open>A row is a \<^verbatim>\<open>dict\<close> from column name to value, in insertion order; its keys are
  pairwise distinct.\<close>

type_synonym row = "(string \<times> pyval) list"

subsection \<open>Hashing and equality inside a set\<close>

text \<open>
  Two members of a Python \<^verbatim>\<open>set\<close> or \<^verbatim>\<open>frozenset\<close> are the same member when they are
  equal under \<^verbatim>\<open>==\<close> (and hash alike). \<open>hkey\<close> is the class of a value under
  \<^verbatim>\<open>==\<close>: numbers by value, text and bytes by content. Hashing a value of an unhashable
  type raises \<^verbatim>\<open>TypeError\<close>.
\<close>

datatype hkey = KNone | KNum rat | KStr string | KBytes string

definition unhashable_message :: "string \<Rightarrow> string" where
  "unhashable_message ty = ''unhashable type: '' @ [CHR 0x27] @ ty @ [CHR 0x27]"

fun py_hash_key :: "pyval \<Rightarrow> error + hkey" where
  "py_hash_key PyNone = Inr KNone"
| "py_hash_key (PyInt i) = Inr (KNum (of_int i))"
| "py_hash_key (PyFloat r) = Inr (KNum r)"
| "py_hash_key (PyStr s) = Inr (KStr s)"
| "py_hash_key (PyBytes b) = Inr (KBytes b)"
| "py_hash_key (PyOther ty rep) = Inl (TypeError (unhashable_message ty))"

fun hashable :: "pyval \<Rightarrow> bool" where
  "hashable (PyOther ty rep) = False"
| "hashable v = True"

subsection \<open>\<^verbatim>\<open>str.strip\<close>\<close>

text \<open>The code points below 256 for which \<^verbatim>\<open>str.isspace\<close> holds.\<close>

definition py_isspace :: "char \<Rightarrow> bool" where
  "py_isspace c = (of_char c \<in> {9, 10, 11, 12, 13, 28, 29, 30, 31, 32, 133, 160 :: nat})"

definition py_strip :: "string \<Rightarrow> string" where
  "py_strip s = rev (dropWhile py_isspace (rev (dropWhile py_isspace s)))"

section \<open>The row-set differ: \<^verbatim>\<open>compare_table_data\<close>\<close>

text \<open>
  \<^verbatim>\<open>normalize_row\<close> (lines 224-239). \<open>rnd\<close> is Python's built-in \<^verbatim>\<open>round(value, 10)\<close>
  on floats; it is not code of the repository and stays a parameter of the model.
\<close>

fun normalize_value :: "(rat \<Rightarrow> rat) \<Rightarrow> pyval \<Rightarrow> pyval" where
  "normalize_value rnd PyNone = PyNone"
| "normalize_value rnd (PyStr s) = PyStr (py_strip s)"
| "normalize_value rnd (PyFloat r) = PyFloat (rnd r)"
| "normalize_value rnd v = v"

definition normalized :: "(rat \<Rightarrow> rat) \<Rightarrow> row \<Rightarrow> row" where
  "normalized rnd row = map (\<lambda>(key, v). (key, normalize_value rnd v)) row"

text \<open>\<^verbatim>\<open>frozenset(normalized.items())\<close> hashes every \<open>(key, value)\<close> pair, in order.\<close>

fun frozenset_items :: "row \<Rightarrow> error + (string \<times> hkey) set" where
  "frozenset_items [] = Inr {}"
| "frozenset_items ((key, v) # kvs) =
     (case py_hash_key v of
        Inl e \<Rightarrow> Inl e
      | Inr h \<Rightarrow>
          (case frozenset_items kvs of
             Inl e \<Rightarrow> Inl e
           | Inr s \<Rightarrow> Inr (insert (key, h) s)))"

definition normalize_row :: "(rat \<Rightarrow> rat) \<Rightarrow> row \<Rightarrow> error + (string \<times> hkey) set" where
  "normalize_row rnd row = frozenset_items (normalized rnd row)"

text \<open>The set comprehension \<^verbatim>\<open>{normalize_row(row) for row in data}\<close>: the first row that
  cannot be hashed raises.\<close>

fun row_set :: "(rat \<Rightarrow> rat) \<Rightarrow> row list \<Rightarrow> error + (string \<times> hkey) set set" where
  "row_set rnd [] = Inr {}"
| "row_set rnd (r # rs) =
     (case normalize_row rnd r of
        Inl e \<Rightarrow> Inl e
      | Inr n \<Rightarrow>
          (case row_set rnd rs of
             Inl e \<Rightarrow> Inl e
           | Inr s \<Rightarrow> Inr (insert n s)))"

text \<open>The dictionary \<^verbatim>\<open>differences\<close>; \<open>comparison_error\<close> is \<open>None\<close> while the key is
  absent.\<close>

record differences =
  row_count_match :: bool
  rows_only_in_db1 :: nat
  rows_only_in_db2 :: nat
  modified_rows :: nat
  identical_rows :: nat
  is_data_identical :: bool
  comparison_error :: "string option"

definition initial_differences :: "row list \<Rightarrow> row list \<Rightarrow> differences" where
  "initial_differences data1 data2 =
     \<lparr> row_count_match = (length data1 = length data2),
       rows_only_in_db1 = 0,
       rows_only_in_db2 = 0,
       modified_rows = 0,
       identical_rows = 0,
       is_data_identical = False,
       comparison_error = None \<rparr>"

text \<open>The \<^verbatim>\<open>except Exception\<close> branch (lines 262-266).\<close>

definition fallback :: "row list \<Rightarrow> row list \<Rightarrow> error \<Rightarrow> differences" where
  "fallback data1 data2 e =
     (initial_differences data1 data2)
       \<lparr> comparison_error := Some (error_text e),
         rows_only_in_db1 := length data1,
         rows_only_in_db2 := length data2 \<rparr>"

definition compare_table_data :: "(rat \<Rightarrow> rat) \<Rightarrow> row list \<Rightarrow> row list \<Rightarrow> differences" where
  "compare_table_data rnd data1 data2 =
     (if length data1 = 0 \<and> length data2 = 0
      then (initial_differences data1 data2) \<lparr> is_data_identical := True \<rparr>
      else
        (case row_set rnd data1 of
           Inl e \<Rightarrow> fallback data1 data2 e
         | Inr data1_set \<Rightarrow>
             (case row_set rnd data2 of
                Inl e \<Rightarrow> fallback data1 data2 e
              | Inr data2_set \<Rightarrow>
                  (let only_in_db1 = data1_set - data2_set;
                       only_in_db2 = data2_set - data1_set;
                       identical = data1_set \<inter> data2_set
                   in (initial_differences data1 data2)
                        \<lparr> rows_only_in_db1 := card only_in_db1,
                          rows_only_in_db2 := card only_in_db2,
                          identical_rows := card identical,
                          is_data_identical :=
                            (card only_in_db1 = 0 \<and> card only_in_db2 = 0
                             \<and> length data1 = length data2) \<rparr>))))"

text \<open>Auxiliary notions for the proofs: a row all of whose values can be hashed, and its
  normal form.\<close>

definition hashable_row :: "row \<Rightarrow> bool" where
  "hashable_row r = list_all (\<lambda>(key, v). hashable v) r"

definition the_normal :: "(rat \<Rightarrow> rat) \<Rightarrow> row \<Rightarrow> (string \<times> hkey) set" where
  "the_normal rnd r = (case normalize_row rnd r of Inl e \<Rightarrow> {} | Inr n \<Rightarrow> n)"

section \<open>Python dictionaries\<close>

text \<open>
  A \<^verbatim>\<open>dict\<close> keeps its keys in the order of their first insertion; assigning to a key
  that is present replaces the value and leaves the position.
\<close>

fun dict_set :: "('k \<times> 'v) list \<Rightarrow> 'k \<Rightarrow> 'v \<Rightarrow> ('k \<times> 'v) list" where
  "dict_set [] k v = [(k, v)]"
| "dict_set ((k', v') # d) k v =
     (if k' = k then (k', v) # d else (k', v') # dict_set d k v)"

text \<open>The comprehension \<^verbatim>\<open>{f(x): x for x in xs}\<close>.\<close>

definition dict_by :: "('a \<Rightarrow> 'k) \<Rightarrow> 'a list \<Rightarrow> ('k \<times> 'a) list" where
  "dict_by f xs = foldl (\<lambda>d x. dict_set d (f x) x) [] xs"

text \<open>\<^verbatim>\<open>dict(pairs)\<close>.\<close>

definition dict_of_pairs :: "('k \<times> 'v) list \<Rightarrow> ('k \<times> 'v) list" where
  "dict_of_pairs kvs = foldl (\<lambda>d (k, v). dict_set d k v) [] kvs"

definition dict_contains :: "('k \<times> 'v) list \<Rightarrow> 'k \<Rightarrow> bool" where
  "dict_contains d k = (map_of d k \<noteq> None)"

section \<open>The schema differ: \<^verbatim>\<open>compare_schemas\<close>\<close>

text \<open>
  One row of \<^verbatim>\<open>PRAGMA table_info\<close>: the tuple
  \<^verbatim>\<open>(cid, name, type, notnull, dflt_value, pk)\<close>. The rows are \<^verbatim>\<open>sqlite3.Row\<close> objects,
  which \<^verbatim>\<open>!=\<close> compares field by field.
\<close>

record column_info =
  col_cid :: int
  col_name :: string
  col_type :: string
  col_notnull :: int
  col_dflt_value :: "string option"
  col_pk :: int

definition quoted :: "string \<Rightarrow> string" where
  "quoted s = [CHR 0x27] @ s @ [CHR 0x27]"

definition compare_schemas :: "column_info list \<Rightarrow> column_info list \<Rightarrow> bool \<times> string list" where
  "compare_schemas schema1 schema2 =
     (let schema1_dict = dict_by col_name schema1;
          schema2_dict = dict_by col_name schema2;
          differences1 =
            concat (map (\<lambda>(cname, c1).
              if \<not> dict_contains schema2_dict cname
              then [''Column '' @ quoted cname @ '' exists in DB1 but not in DB2'']
              else []) schema1_dict);
          differences2 =
            concat (map (\<lambda>(cname, c2).
              if \<not> dict_contains schema1_dict cname
              then [''Column '' @ quoted cname @ '' exists in DB2 but not in DB1'']
              else []) schema2_dict);
          differences3 =
            concat (map (\<lambda>(cname, c1).
              (case map_of schema2_dict cname of
                 None \<Rightarrow> []
               | Some c2 \<Rightarrow>
                   if c1 \<noteq> c2
                   then [''Column '' @ quoted cname @ '' has different definitions: ''
                          @ ''DB1='' @ col_type c1 @ '' vs DB2='' @ col_type c2]
                   else [])) schema1_dict);
          differences = differences1 @ differences2 @ differences3
      in (length differences = 0, differences))"

section \<open>The catalog reader\<close>

text \<open>
  What a connection shows during one run. \<open>master\<close> holds the \<open>(type, name)\<close> rows
  of \<^verbatim>\<open>sqlite_master\<close> as the enumeration query sees them. \<open>tables\<close> holds the tables
  as the later queries see them: a table that was listed and then dropped is in
  \<open>master\<close> and not in \<open>tables\<close>. \<open>executed\<close> is the list of the statements the run
  has executed on the connection. Table names are assumed free of \<^verbatim>\<open>]\<close>, so that
  \<^verbatim>\<open>[name]\<close> quotes them.
\<close>

record table =
  tbl_columns :: "column_info list"
  tbl_rows :: "pyval list list"

record connection =
  master :: "(string \<times> string) list"
  tables :: "(string \<times> table) list"
  executed :: "string list"

definition execute :: "connection \<Rightarrow> string \<Rightarrow> connection" where
  "execute conn sql = conn \<lparr> executed := executed conn @ [sql] \<rparr>"

definition ascii_lower :: "char \<Rightarrow> char" where
  "ascii_lower c =
     (if (65::nat) \<le> of_char c \<and> of_char c \<le> (90::nat)
      then char_of (of_char c + (32::nat)) else c)"

text \<open>\<^verbatim>\<open>name LIKE 'sqlite_%'\<close>: the six letters in either case, any one character,
  then anything.\<close>

definition like_sqlite_prefix :: "string \<Rightarrow> bool" where
  "like_sqlite_prefix n = (7 \<le> length n \<and> map ascii_lower (take 6 n) = ''sqlite'')"

text \<open>The statement of lines 100-104, white space aside.\<close>

definition names_sql :: string where
  "names_sql = ''SELECT name FROM sqlite_master WHERE type=''
     @ quoted ''table'' @ '' AND name NOT LIKE '' @ quoted ''sqlite_%'' @ '' ORDER BY name''"

text \<open>
  \<^verbatim>\<open>get_table_names\<close> returns a \<^verbatim>\<open>set\<close>; the model keeps it as a list without
  repetition. Python iterates a set in an order of its own; the model iterates in the
  order of the listing.
\<close>

definition get_table_names :: "connection \<Rightarrow> connection \<times> string list" where
  "get_table_names conn =
     (execute conn names_sql,
      remdups (map snd (filter (\<lambda>(ty, n). ty = ''table'' \<and> \<not> like_sqlite_prefix n)
                          (master conn))))"

definition table_info_sql :: "string \<Rightarrow> string" where
  "table_info_sql tname = ''PRAGMA table_info(['' @ tname @ ''])''"

definition count_sql :: "string \<Rightarrow> string" where
  "count_sql tname = ''SELECT COUNT(*) FROM ['' @ tname @ '']''"

definition select_sql :: "string \<Rightarrow> string" where
  "select_sql tname = ''SELECT * FROM ['' @ tname @ '']''"

definition no_such_table :: "string \<Rightarrow> error" where
  "no_such_table tname = OperationalError (''no such table: '' @ tname)"

text \<open>\<^verbatim>\<open>PRAGMA table_info\<close> of a table that does not exist returns no rows.\<close>

definition get_table_schema :: "connection \<Rightarrow> string \<Rightarrow> connection \<times> column_info list" where
  "get_table_schema conn tname =
     (execute conn (table_info_sql tname),
      (case map_of (tables conn) tname of
         None \<Rightarrow> []
       | Some t \<Rightarrow> tbl_columns t))"

text \<open>A \<^verbatim>\<open>SELECT\<close> from a table that does not exist raises
  \<^verbatim>\<open>sqlite3.OperationalError\<close>.\<close>

definition get_row_count :: "connection \<Rightarrow> string \<Rightarrow> connection \<times> (error + nat)" where
  "get_row_count conn tname =
     (execute conn (count_sql tname),
      (case map_of (tables conn) tname of
         None \<Rightarrow> Inl (no_such_table tname)
       | Some t \<Rightarrow> Inr (length (tbl_rows t))))"

definition get_table_data :: "connection \<Rightarrow> string \<Rightarrow> connection \<times> (error + row list)" where
  "get_table_data conn tname =
     (execute conn (select_sql tname),
      (case map_of (tables conn) tname of
         None \<Rightarrow> Inl (no_such_table tname)
       | Some t \<Rightarrow>
           (let columns = map col_name (tbl_columns t)
            in Inr (map (\<lambda>r. dict_of_pairs (zip columns r)) (tbl_rows t)))))"

section \<open>The table comparator: \<^verbatim>\<open>compare_table\<close>\<close>

text \<open>The dataclass \<^verbatim>\<open>TableComparison\<close>; \<open>data_differences = None\<close> is the empty
  dictionary of the default.\<close>

record table_comparison =
  table_name :: string
  exists_in_db1 :: bool
  exists_in_db2 :: bool
  schema_match :: bool
  row_count_db1 :: nat
  row_count_db2 :: nat
  schema_diff :: "string list"
  data_differences :: "differences option"
  is_identical :: bool

definition new_table_comparison :: "string \<Rightarrow> table_comparison" where
  "new_table_comparison tname =
     \<lparr> table_name = tname,
       exists_in_db1 = True,
       exists_in_db2 = True,
       schema_match = True,
       row_count_db1 = 0,
       row_count_db2 = 0,
       schema_diff = [],
       data_differences = None,
       is_identical = True \<rparr>"

text \<open>Lines 305-310: \<^verbatim>\<open>data_differences.get("is_data_identical", False)\<close> is
  \<^verbatim>\<open>False\<close> on the empty dictionary.\<close>

definition determine_identical :: "table_comparison \<Rightarrow> table_comparison" where
  "determine_identical comparison =
     comparison \<lparr> is_identical :=
       (schema_match comparison
        \<and> row_count_db1 comparison = row_count_db2 comparison
        \<and> (case data_differences comparison of
              None \<Rightarrow> False
            | Some d \<Rightarrow> is_data_identical d)) \<rparr>"

text \<open>
  \<^verbatim>\<open>compare_table\<close> has no \<^verbatim>\<open>try\<close>: an exception of a query leaves the function.
  The result carries both connections, with the statements executed so far.
\<close>

definition compare_table ::
  "(rat \<Rightarrow> rat) \<Rightarrow> connection \<Rightarrow> connection \<Rightarrow> string
     \<Rightarrow> connection \<times> connection \<times> (error + table_comparison)" where
  "compare_table rnd conn1 conn2 tname =
     (let comparison = new_table_comparison tname;
          (conn1, schema1) = get_table_schema conn1 tname;
          (conn2, schema2) = get_table_schema conn2 tname;
          (matches, diff) = compare_schemas schema1 schema2;
          comparison = comparison \<lparr> schema_match := matches, schema_diff := diff \<rparr>;
          (conn1, count1) = get_row_count conn1 tname
      in case count1 of
           Inl e \<Rightarrow> (conn1, conn2, Inl e)
         | Inr n1 \<Rightarrow>
             (let (conn2, count2) = get_row_count conn2 tname
              in case count2 of
                   Inl e \<Rightarrow> (conn1, conn2, Inl e)
                 | Inr n2 \<Rightarrow>
                     (let comparison =
                            comparison \<lparr> row_count_db1 := n1, row_count_db2 := n2 \<rparr>
                      in if schema_match comparison
                         then
                           (let (conn1, fetched1) = get_table_data conn1 tname
                            in case fetched1 of
                                 Inl e \<Rightarrow> (conn1, conn2, Inl e)
                               | Inr data1 \<Rightarrow>
                                   (let (conn2, fetched2) = get_table_data conn2 tname
                                    in case fetched2 of
                                         Inl e \<Rightarrow> (conn1, conn2, Inl e)
                                       | Inr data2 \<Rightarrow>
                                           (conn1, conn2,
                                            Inr (determine_identical
                                              (comparison \<lparr> data_differences :=
                                                 Some (compare_table_data rnd data1 data2) \<rparr>)))))
                         else (conn1, conn2, Inr (determine_identical comparison)))))"

section \<open>The database comparator: \<^verbatim>\<open>compare_databases\<close>\<close>

record database_comparison =
  db1_path :: string
  db2_path :: string
  tables_only_in_db1 :: "string list"
  tables_only_in_db2 :: "string list"
  common_tables :: "string list"
  table_comparisons :: "(string \<times> table_comparison) list"
  db_is_identical :: bool

definition new_database_comparison :: "string \<Rightarrow> string \<Rightarrow> database_comparison" where
  "new_database_comparison path1 path2 =
     \<lparr> db1_path = path1,
       db2_path = path2,
       tables_only_in_db1 = [],
       tables_only_in_db2 = [],
       common_tables = [],
       table_comparisons = [],
       db_is_identical = True \<rparr>"

text \<open>One turn of the loop of lines 339-343.\<close>

definition record_table ::
  "database_comparison \<Rightarrow> string \<Rightarrow> table_comparison \<Rightarrow> database_comparison" where
  "record_table comparison tname table_comp =
     (let comparison =
            comparison \<lparr> table_comparisons :=
              dict_set (table_comparisons comparison) tname table_comp \<rparr>
      in if \<not> is_identical table_comp
         then comparison \<lparr> db_is_identical := False \<rparr>
         else comparison)"

fun compare_common ::
  "(rat \<Rightarrow> rat) \<Rightarrow> connection \<Rightarrow> connection \<Rightarrow> string list \<Rightarrow> database_comparison
     \<Rightarrow> connection \<times> connection \<times> (error + database_comparison)" where
  "compare_common rnd conn1 conn2 [] comparison = (conn1, conn2, Inr comparison)"
| "compare_common rnd conn1 conn2 (tname # rest) comparison =
     (case compare_table rnd conn1 conn2 tname of
        (conn1', conn2', Inl e) \<Rightarrow> (conn1', conn2', Inl e)
      | (conn1', conn2', Inr table_comp) \<Rightarrow>
          compare_common rnd conn1' conn2' rest (record_table comparison tname table_comp))"

definition compare_databases ::
  "(rat \<Rightarrow> rat) \<Rightarrow> string \<Rightarrow> string \<Rightarrow> connection \<Rightarrow> connection
     \<Rightarrow> connection \<times> connection \<times> (error + database_comparison)" where
  "compare_databases rnd path1 path2 conn1 conn2 =
     (let comparison = new_database_comparison path1 path2;
          (conn1, tables1) = get_table_names conn1;
          (conn2, tables2) = get_table_names conn2;
          comparison = comparison
            \<lparr> tables_only_in_db1 := filter (\<lambda>t. t \<notin> set tables2) tables1,
              tables_only_in_db2 := filter (\<lambda>t. t \<notin> set tables1) tables2,
              common_tables := filter (\<lambda>t. t \<in> set tables2) tables1 \<rparr>
      in case compare_common rnd conn1 conn2 (common_tables comparison) comparison of
           (conn1, conn2, Inl e) \<Rightarrow> (conn1, conn2, Inl e)
         | (conn1, conn2, Inr comparison) \<Rightarrow>
             (conn1, conn2,
              Inr (if tables_only_in_db1 comparison \<noteq> [] \<or> tables_only_in_db2 comparison \<noteq> []
                   then comparison \<lparr> db_is_identical := False \<rparr>
                   else comparison)))"

section \<open>The difference analyzer: \<^verbatim>\<open>analyze_row_differences\<close>\<close>

subsection \<open>\<^verbatim>\<open>str\<close> and \<^verbatim>\<open>type\<close> of a value\<close>

definition digit_char :: "nat \<Rightarrow> char" where
  "digit_char d = ''0123456789'' ! d"

function digits_of :: "nat \<Rightarrow> string" where
  "digits_of n =
     (if n < 10 then [digit_char n] else digits_of (n div 10) @ [digit_char (n mod 10)])"
  by pat_completeness auto
termination
  by (relation "measure (\<lambda>n. n)") auto

declare digits_of.simps [simp del]

definition int_str :: "int \<Rightarrow> string" where
  "int_str i = (if i < 0 then CHR ''-'' # digits_of (nat (- i)) else digits_of (nat i))"

text \<open>
  \<^verbatim>\<open>str(v)\<close>. The texts of a float and of a \<^verbatim>\<open>bytes\<close> value are built into Python;
  \<open>fstr\<close> and \<open>bstr\<close> stand for them.
\<close>

fun py_str :: "(rat \<Rightarrow> string) \<Rightarrow> (string \<Rightarrow> string) \<Rightarrow> pyval \<Rightarrow> string" where
  "py_str fstr bstr PyNone = ''None''"
| "py_str fstr bstr (PyInt i) = int_str i"
| "py_str fstr bstr (PyFloat r) = fstr r"
| "py_str fstr bstr (PyStr s) = s"
| "py_str fstr bstr (PyBytes b) = bstr b"
| "py_str fstr bstr (PyOther ty rep) = rep"

text \<open>\<^verbatim>\<open>type(v)\<close>, by its name.\<close>

fun py_type :: "pyval \<Rightarrow> string" where
  "py_type PyNone = ''NoneType''"
| "py_type (PyInt i) = ''int''"
| "py_type (PyFloat r) = ''float''"
| "py_type (PyStr s) = ''str''"
| "py_type (PyBytes b) = ''bytes''"
| "py_type (PyOther ty rep) = ty"

text \<open>\<^verbatim>\<open>row.get(col)\<close>.\<close>

definition dict_get :: "row \<Rightarrow> string \<Rightarrow> pyval" where
  "dict_get r col = (case map_of r col of None \<Rightarrow> PyNone | Some v \<Rightarrow> v)"

text \<open>The slice \<^verbatim>\<open>xs[:n]\<close>: a negative \<open>n\<close> counts from the end.\<close>

definition py_prefix :: "int \<Rightarrow> 'a list \<Rightarrow> 'a list" where
  "py_prefix n xs =
     (if 0 \<le> n then take (nat n) xs else take (nat (int (length xs) + n)) xs)"

fun join :: "string \<Rightarrow> string list \<Rightarrow> string" where
  "join sep [] = []"
| "join sep [x] = x"
| "join sep (x # y # ys) = x @ sep @ join sep (y # ys)"

subsection \<open>The analysis\<close>

record type_mismatch =
  tm_column :: string
  tm_value :: string
  tm_type_db1 :: string
  tm_type_db2 :: string
  tm_sample_row :: "(string \<times> string) list"

record analysis =
  type_mismatches :: "type_mismatch list"
  value_mismatches :: "row list"
  sample_rows_db1_only :: "(string \<times> string) list list"
  sample_rows_db2_only :: "(string \<times> string) list list"
  is_type_only_difference :: bool

definition initial_analysis :: analysis where
  "initial_analysis =
     \<lparr> type_mismatches = [],
       value_mismatches = [],
       sample_rows_db1_only = [],
       sample_rows_db2_only = [],
       is_type_only_difference = False \<rparr>"

definition create_lookup_key :: "(rat \<Rightarrow> string) \<Rightarrow> (string \<Rightarrow> string) \<Rightarrow> row \<Rightarrow> string" where
  "create_lookup_key fstr bstr r =
     join ''|'' (map (\<lambda>(key, v). if v \<noteq> PyNone then py_str fstr bstr v else ''NULL'') r)"

text \<open>The test of line 760.\<close>

definition type_differs ::
  "(rat \<Rightarrow> string) \<Rightarrow> (string \<Rightarrow> string) \<Rightarrow> row \<Rightarrow> row \<Rightarrow> string \<Rightarrow> bool" where
  "type_differs fstr bstr row1 row2 col =
     (let val1 = dict_get row1 col; val2 = dict_get row2 col
      in py_str fstr bstr val1 = py_str fstr bstr val2 \<and> py_type val1 \<noteq> py_type val2)"

definition mismatch_entry ::
  "(rat \<Rightarrow> string) \<Rightarrow> (string \<Rightarrow> string) \<Rightarrow> row \<Rightarrow> row \<Rightarrow> string \<Rightarrow> type_mismatch" where
  "mismatch_entry fstr bstr row1 row2 col =
     (let val1 = dict_get row1 col; val2 = dict_get row2 col
      in \<lparr> tm_column = col,
           tm_value = py_str fstr bstr val1,
           tm_type_db1 = py_type val1,
           tm_type_db2 = py_type val2,
           tm_sample_row = map (\<lambda>(k, v). (k, take 50 (py_str fstr bstr v))) row1 \<rparr>)"

text \<open>The inner loop of lines 755-773; the state is \<^verbatim>\<open>type_mismatch_count\<close> and
  \<^verbatim>\<open>analysis["type_mismatches"]\<close>.\<close>

fun scan_columns ::
  "(rat \<Rightarrow> string) \<Rightarrow> (string \<Rightarrow> string) \<Rightarrow> int \<Rightarrow> row \<Rightarrow> row \<Rightarrow> string list
     \<Rightarrow> nat \<times> type_mismatch list \<Rightarrow> nat \<times> type_mismatch list" where
  "scan_columns fstr bstr max_samples row1 row2 [] st = st"
| "scan_columns fstr bstr max_samples row1 row2 (col # cols) (cnt, found) =
     (if type_differs fstr bstr row1 row2 col
      then scan_columns fstr bstr max_samples row1 row2 cols
             (cnt + 1,
              if int (length found) < max_samples
              then found @ [mismatch_entry fstr bstr row1 row2 col]
              else found)
      else scan_columns fstr bstr max_samples row1 row2 cols (cnt, found))"

text \<open>The outer loop of lines 749-773.\<close>

fun scan_rows ::
  "(rat \<Rightarrow> string) \<Rightarrow> (string \<Rightarrow> string) \<Rightarrow> int \<Rightarrow> string list \<Rightarrow> (string \<times> row) list
     \<Rightarrow> (string \<times> row) list \<Rightarrow> nat \<times> type_mismatch list \<Rightarrow> nat \<times> type_mismatch list" where
  "scan_rows fstr bstr max_samples columns data2_by_key [] st = st"
| "scan_rows fstr bstr max_samples columns data2_by_key ((key1, row1) # items) st =
     (case map_of data2_by_key key1 of
        None \<Rightarrow> scan_rows fstr bstr max_samples columns data2_by_key items st
      | Some row2 \<Rightarrow>
          scan_rows fstr bstr max_samples columns data2_by_key items
            (scan_columns fstr bstr max_samples row1 row2 columns st))"

definition sample_of :: "(rat \<Rightarrow> string) \<Rightarrow> (string \<Rightarrow> string) \<Rightarrow> row \<Rightarrow> (string \<times> string) list" where
  "sample_of fstr bstr r =
     map (\<lambda>(k, v). (k, if v \<noteq> PyNone then take 100 (py_str fstr bstr v) else ''NULL'')) r"

text \<open>
  \<^verbatim>\<open>keys1_only\<close> and \<^verbatim>\<open>keys2_only\<close> are sets; \<^verbatim>\<open>list(keys1_only)\<close> lists one in an
  order of Python's own, for which the model takes the order of the dictionary.
\<close>

definition analyze_row_differences ::
  "(rat \<Rightarrow> string) \<Rightarrow> (string \<Rightarrow> string) \<Rightarrow> row list \<Rightarrow> row list \<Rightarrow> string \<Rightarrow> int \<Rightarrow> analysis" where
  "analyze_row_differences fstr bstr data1 data2 tname max_samples =
     (if data1 = [] \<or> data2 = [] then initial_analysis
      else
        (let columns = (case data1 of [] \<Rightarrow> [] | r # rs \<Rightarrow> map fst r);
             data1_by_key = dict_by (create_lookup_key fstr bstr) data1;
             data2_by_key = dict_by (create_lookup_key fstr bstr) data2;
             (type_mismatch_count, found) =
               scan_rows fstr bstr max_samples columns data2_by_key
                 (py_prefix (max_samples * 2) data1_by_key) (0, []);
             keys1_only = filter (\<lambda>k. \<not> dict_contains data2_by_key k) (map fst data1_by_key);
             keys2_only = filter (\<lambda>k. \<not> dict_contains data1_by_key k) (map fst data2_by_key);
             samples1 =
               concat (map (\<lambda>k. case map_of data1_by_key k of
                                   None \<Rightarrow> [] | Some r \<Rightarrow> [sample_of fstr bstr r])
                           (py_prefix max_samples keys1_only));
             samples2 =
               concat (map (\<lambda>k. case map_of data2_by_key k of
                                   None \<Rightarrow> [] | Some r \<Rightarrow> [sample_of fstr bstr r])
                           (py_prefix max_samples keys2_only))
         in initial_analysis
              \<lparr> type_mismatches := found,
                sample_rows_db1_only := samples1,
                sample_rows_db2_only := samples2,
                is_type_only_difference :=
                  (length found > 0 \<and> length keys1_only = 0 \<and> length keys2_only = 0) \<rparr>))"

section \<open>Notions used to state the properties\<close>

text \<open>The normalized rows of a table as \<^verbatim>\<open>get_table_data\<close> builds them, and the two
  results \<^verbatim>\<open>compare_table\<close> can return for a table present on both sides.\<close>

definition rows_of :: "table \<Rightarrow> row list" where
  "rows_of t = map (\<lambda>r. dict_of_pairs (zip (map col_name (tbl_columns t)) r)) (tbl_rows t)"

definition fetched_comparison ::
  "(rat \<Rightarrow> rat) \<Rightarrow> string \<Rightarrow> table \<Rightarrow> table \<Rightarrow> table_comparison" where
  "fetched_comparison rnd tname t1 t2 =
     determine_identical
       ((new_table_comparison tname)
          \<lparr> schema_match := True,
            schema_diff := snd (compare_schemas (tbl_columns t1) (tbl_columns t2)),
            row_count_db1 := length (tbl_rows t1),
            row_count_db2 := length (tbl_rows t2),
            data_differences := Some (compare_table_data rnd (rows_of t1) (rows_of t2)) \<rparr>)"

definition counted_comparison :: "string \<Rightarrow> table \<Rightarrow> table \<Rightarrow> table_comparison" where
  "counted_comparison tname t1 t2 =
     determine_identical
       ((new_table_comparison tname)
          \<lparr> schema_match := False,
            schema_diff := snd (compare_schemas (tbl_columns t1) (tbl_columns t2)),
            row_count_db1 := length (tbl_rows t1),
            row_count_db2 := length (tbl_rows t2) \<rparr>)"

text \<open>The statements a call has executed on a connection.\<close>

definition statements_run :: "connection \<Rightarrow> connection \<Rightarrow> string list" where
  "statements_run before after = drop (length (executed before)) (executed after)"



text \<open>The comparison after the two listings are classified (lines 334-336).\<close>

definition classified ::
  "string \<Rightarrow> string \<Rightarrow> string list \<Rightarrow> string list \<Rightarrow> database_comparison" where
  "classified path1 path2 tables1 tables2 =
     (new_database_comparison path1 path2)
       \<lparr> tables_only_in_db1 := filter (\<lambda>t. t \<notin> set tables2) tables1,
         tables_only_in_db2 := filter (\<lambda>t. t \<notin> set tables1) tables2,
         common_tables := filter (\<lambda>t. t \<in> set tables2) tables1 \<rparr>"

text \<open>For the analyzer: the columns of the first row of side 1, the lookup keys met on
  one side only, and whether some entry of \<open>items\<close> has a partner under the same key
  in \<open>data2_by_key\<close> that passes the test of line 760 in some column.\<close>

definition first_columns :: "row list \<Rightarrow> string list" where
  "first_columns data1 = (case data1 of [] \<Rightarrow> [] | r # rs \<Rightarrow> map fst r)"

definition keys_only_in ::
  "(rat \<Rightarrow> string) \<Rightarrow> (string \<Rightarrow> string) \<Rightarrow> row list \<Rightarrow> row list \<Rightarrow> string list" where
  "keys_only_in fstr bstr data_a data_b =
     filter (\<lambda>k. \<not> dict_contains (dict_by (create_lookup_key fstr bstr) data_b) k)
       (map fst (dict_by (create_lookup_key fstr bstr) data_a))"

definition mismatch_among ::
  "(rat \<Rightarrow> string) \<Rightarrow> (string \<Rightarrow> string) \<Rightarrow> string list \<Rightarrow> (string \<times> row) list
     \<Rightarrow> (string \<times> row) list \<Rightarrow> bool" where
  "mismatch_among fstr bstr columns data2_by_key items =
     list_ex (\<lambda>(key1, row1).
        case map_of data2_by_key key1 of
          None \<Rightarrow> False
        | Some row2 \<Rightarrow> list_ex (type_differs fstr bstr row1 row2) columns) items"

text \<open>A type mismatch among all the keys of side 1, and among the first
  \<open>2 * max_samples\<close> of them.\<close>

definition type_mismatch_exists ::
  "(rat \<Rightarrow> string) \<Rightarrow> (string \<Rightarrow> string) \<Rightarrow> row list \<Rightarrow> row list \<Rightarrow> bool" where
  "type_mismatch_exists fstr bstr data1 data2 =
     mismatch_among fstr bstr (first_columns data1)
       (dict_by (create_lookup_key fstr bstr) data2)
       (dict_by (create_lookup_key fstr bstr) data1)"

definition type_mismatch_scanned ::
  "(rat \<Rightarrow> string) \<Rightarrow> (string \<Rightarrow> string) \<Rightarrow> row list \<Rightarrow> row list \<Rightarrow> int \<Rightarrow> bool" where
  "type_mismatch_scanned fstr bstr data1 data2 max_samples =
     mismatch_among fstr bstr (first_columns data1)
       (dict_by (create_lookup_key fstr bstr) data2)
       (take (nat (max_samples * 2)) (dict_by (create_lookup_key fstr bstr) data1))"

section \<open>Example data\<close>

definition column :: "int \<Rightarrow> string \<Rightarrow> string \<Rightarrow> column_info" where
  "column i n t =
     \<lparr> col_cid = i, col_name = n, col_type = t, col_notnull = 0,
       col_dflt_value = None, col_pk = 0 \<rparr>"

definition users_table :: table where
  "users_table =
     \<lparr> tbl_columns = [column 0 ''id'' ''INTEGER'', column 1 ''name'' ''TEXT''],
       tbl_rows = [[PyInt 1, PyStr ''ann'']] \<rparr>"

definition logs_table :: table where
  "logs_table =
     \<lparr> tbl_columns = [column 0 ''line'' ''TEXT''],
       tbl_rows = [] \<rparr>"

definition db_a :: connection where
  "db_a =
     \<lparr> master = [(''table'', ''users'')],
       tables = [(''users'', users_table)],
       executed = [] \<rparr>"

definition db_b :: connection where
  "db_b =
     \<lparr> master = [(''table'', ''users''), (''table'', ''logs'')],
       tables = [(''users'', users_table), (''logs'', logs_table)],
       executed = [] \<rparr>"

text \<open>\<open>users\<close> was listed and is gone when queried.\<close>

definition db_dropped :: connection where
  "db_dropped =
     \<lparr> master = [(''table'', ''users'')],
       tables = [],
       executed = [] \<rparr>"

text \<open>Three rows on each side with the same lookup keys; the third stores \<open>3\<close> as an
  integer on one side and as text on the other.\<close>

definition numbers_as_int :: "row list" where
  "numbers_as_int = [[(''a'', PyInt 1)], [(''a'', PyInt 2)], [(''a'', PyInt 3)]]"

definition numbers_last_as_text :: "row list" where
  "numbers_last_as_text = [[(''a'', PyInt 1)], [(''a'', PyInt 2)], [(''a'', PyStr ''3'')]]"

text \<open>The rules that evaluate a comparison of the example data.\<close>

lemmas evaluate_comparison =
  compare_databases_def get_table_names_def like_sqlite_prefix_def
  new_database_comparison_def compare_table_def get_table_schema_def get_row_count_def
  get_table_data_def new_table_comparison_def determine_identical_def record_table_def
  compare_schemas_def dict_by_def dict_contains_def dict_of_pairs_def column_def
  compare_table_data_def initial_differences_def normalize_row_def normalized_def
  users_table_def logs_table_def db_a_def db_b_def db_dropped_def execute_def
  no_such_table_def py_strip_def py_isspace_def

lemmas evaluate_analysis =
  numbers_as_int_def numbers_last_as_text_def type_mismatch_exists_def
  type_mismatch_scanned_def keys_only_in_def mismatch_among_def first_columns_def
  analyze_row_differences_def initial_analysis_def py_prefix_def type_differs_def
  dict_get_def dict_contains_def dict_by_def create_lookup_key_def int_str_def
  digits_of.simps digit_char_def

section \<open>Properties of the row-set differ\<close>

subsection \<open>When normalization succeeds\<close>

lemma hashable_normalize_value: "hashable (normalize_value rnd v) = hashable v"
  by (cases v) simp_all

lemma py_hash_key_Inr: "hashable v \<Longrightarrow> \<exists>h. py_hash_key v = Inr h"
  by (cases v) simp_all

lemma py_hash_key_Inl: "\<not> hashable v \<Longrightarrow> \<exists>e. py_hash_key v = Inl e"
  by (cases v) simp_all

lemma frozenset_items_Inr:
  "list_all (\<lambda>(key, v). hashable v) kvs \<Longrightarrow> \<exists>s. frozenset_items kvs = Inr s"
proof (induction kvs)
  case Nil
  then show ?case by simp
next
  case (Cons kv kvs)
  obtain k v where kv: "kv = (k, v)" by (cases kv)
  from Cons.prems kv have hv: "hashable v"
    and others: "list_all (\<lambda>(key, v). hashable v) kvs"
    by simp_all
  from py_hash_key_Inr[OF hv] obtain h where h: "py_hash_key v = Inr h" by blast
  from Cons.IH[OF others] obtain s where s: "frozenset_items kvs = Inr s" by blast
  show ?case using kv h s by simp
qed

lemma frozenset_items_Inl:
  "\<not> list_all (\<lambda>(key, v). hashable v) kvs \<Longrightarrow> \<exists>e. frozenset_items kvs = Inl e"
proof (induction kvs)
  case Nil
  then show ?case by simp
next
  case (Cons kv kvs)
  obtain k v where kv: "kv = (k, v)" by (cases kv)
  show ?case
  proof (cases "hashable v")
    case False
    from py_hash_key_Inl[OF this] obtain e where "py_hash_key v = Inl e" by blast
    then show ?thesis using kv by simp
  next
    case True
    then obtain h where h: "py_hash_key v = Inr h" using py_hash_key_Inr by blast
    from True Cons.prems kv have "\<not> list_all (\<lambda>(key, v). hashable v) kvs" by simp
    from Cons.IH[OF this] obtain e where "frozenset_items kvs = Inl e" by blast
    then show ?thesis using kv h by simp
  qed
qed

lemma hashable_row_normalized: "hashable_row (normalized rnd r) = hashable_row r"
  by (induction r) (auto simp: hashable_row_def normalized_def hashable_normalize_value)

lemma normalize_row_Inr: "hashable_row r \<Longrightarrow> \<exists>n. normalize_row rnd r = Inr n"
  unfolding normalize_row_def
  using frozenset_items_Inr[of "normalized rnd r"] hashable_row_normalized[of rnd r]
  by (simp add: hashable_row_def)

lemma normalize_row_Inl: "\<not> hashable_row r \<Longrightarrow> \<exists>e. normalize_row rnd r = Inl e"
  unfolding normalize_row_def
  using frozenset_items_Inl[of "normalized rnd r"] hashable_row_normalized[of rnd r]
  by (simp add: hashable_row_def)

lemma normalize_row_fails_iff: "(\<exists>e. normalize_row rnd r = Inl e) \<longleftrightarrow> \<not> hashable_row r"
  using normalize_row_Inr[of r rnd] normalize_row_Inl[of r rnd] by auto

lemma row_set_Inr:
  "list_all hashable_row rs \<Longrightarrow> row_set rnd rs = Inr (the_normal rnd ` set rs)"
proof (induction rs)
  case Nil
  then show ?case by simp
next
  case (Cons r rs)
  then obtain n where "normalize_row rnd r = Inr n" using normalize_row_Inr by auto
  then show ?case using Cons by (simp add: the_normal_def)
qed

lemma row_set_Inl:
  "\<not> list_all hashable_row rs \<Longrightarrow>
     \<exists>r e. r \<in> set rs \<and> normalize_row rnd r = Inl e \<and> row_set rnd rs = Inl e"
proof (induction rs)
  case Nil
  then show ?case by simp
next
  case (Cons r rs)
  show ?case
  proof (cases "hashable_row r")
    case False
    from normalize_row_Inl[OF this, of rnd] obtain e where e: "normalize_row rnd r = Inl e"
      by blast
    then have "r \<in> set (r # rs)" "row_set rnd (r # rs) = Inl e" by simp_all
    with e show ?thesis by blast
  next
    case True
    then obtain n where n: "normalize_row rnd r = Inr n" using normalize_row_Inr by blast
    from True Cons.prems have "\<not> list_all hashable_row rs" by simp
    from Cons.IH[OF this] obtain r' e where
      r': "r' \<in> set rs" "normalize_row rnd r' = Inl e" "row_set rnd rs = Inl e"
      by blast
    then have "r' \<in> set (r # rs)" "row_set rnd (r # rs) = Inl e" using n by simp_all
    with r'(2) show ?thesis by blast
  qed
qed

lemma compare_table_data_hashable:
  assumes "list_all hashable_row data1" and "list_all hashable_row data2"
    and "data1 \<noteq> [] \<or> data2 \<noteq> []"
  shows "compare_table_data rnd data1 data2 =
     (initial_differences data1 data2)
       \<lparr> rows_only_in_db1 := card (the_normal rnd ` set data1 - the_normal rnd ` set data2),
         rows_only_in_db2 := card (the_normal rnd ` set data2 - the_normal rnd ` set data1),
         identical_rows := card (the_normal rnd ` set data1 \<inter> the_normal rnd ` set data2),
         is_data_identical :=
           (card (the_normal rnd ` set data1 - the_normal rnd ` set data2) = 0
            \<and> card (the_normal rnd ` set data2 - the_normal rnd ` set data1) = 0
            \<and> length data1 = length data2) \<rparr>"
  using assms(3) row_set_Inr[OF assms(1), of rnd] row_set_Inr[OF assms(2), of rnd]
  by (auto simp: compare_table_data_def Let_def)

lemma compare_table_data_unhashable:
  assumes "\<not> (list_all hashable_row data1 \<and> list_all hashable_row data2)"
  shows "\<exists>r e. r \<in> set data1 \<union> set data2 \<and> normalize_row rnd r = Inl e
           \<and> compare_table_data rnd data1 data2 = fallback data1 data2 e"
proof -
  from assms have ne: "\<not> (length data1 = 0 \<and> length data2 = 0)" by auto
  show ?thesis
  proof (cases "list_all hashable_row data1")
    case False
    from row_set_Inl[OF this, of rnd] obtain r e where
      r: "r \<in> set data1" "normalize_row rnd r = Inl e" "row_set rnd data1 = Inl e" by blast
    then have "compare_table_data rnd data1 data2 = fallback data1 data2 e"
      using ne by (auto simp: compare_table_data_def)
    with r show ?thesis by blast
  next
    case True
    with assms have "\<not> list_all hashable_row data2" by simp
    from row_set_Inl[OF this, of rnd] obtain r e where
      r: "r \<in> set data2" "normalize_row rnd r = Inl e" "row_set rnd data2 = Inl e" by blast
    then have "compare_table_data rnd data1 data2 = fallback data1 data2 e"
      using ne row_set_Inr[OF True, of rnd] by (auto simp: compare_table_data_def)
    with r show ?thesis by blast
  qed
qed

subsection \<open>The fully-identical flag\<close>



subsection \<open>The fallback\<close>

text \<open>
  Claim C5. Whenever the normalization of some row of either list fails, the differ
  still returns a result: the count of rows only in the first list is the length of the
  first list, the count of rows only in the second list is the length of the second
  list, the text of the error of a failing row is recorded under \<open>comparison_error\<close>,
  and \<open>is_data_identical\<close> is false.
\<close>

theorem compare_table_data_fallback:
  assumes "r \<in> set data1 \<union> set data2" and "normalize_row rnd r = Inl e"
  shows "rows_only_in_db1 (compare_table_data rnd data1 data2) = length data1
       \<and> rows_only_in_db2 (compare_table_data rnd data1 data2) = length data2
       \<and> (\<exists>r' e'. r' \<in> set data1 \<union> set data2 \<and> normalize_row rnd r' = Inl e'
            \<and> comparison_error (compare_table_data rnd data1 data2) = Some (error_text e'))
       \<and> \<not> is_data_identical (compare_table_data rnd data1 data2)"
proof -
  from assms(2) have "\<not> hashable_row r" using normalize_row_fails_iff by blast
  with assms(1) have "\<not> (list_all hashable_row data1 \<and> list_all hashable_row data2)"
    by (auto simp: list_all_iff)
  from compare_table_data_unhashable[OF this, of rnd] obtain r' e' where
    r': "r' \<in> set data1 \<union> set data2" "normalize_row rnd r' = Inl e'"
    and eq: "compare_table_data rnd data1 data2 = fallback data1 data2 e'" by blast
  have "comparison_error (compare_table_data rnd data1 data2) = Some (error_text e')"
    by (simp add: eq fallback_def initial_differences_def)
  with r' have "\<exists>r' e'. r' \<in> set data1 \<union> set data2 \<and> normalize_row rnd r' = Inl e'
      \<and> comparison_error (compare_table_data rnd data1 data2) = Some (error_text e')"
    by blast
  then show ?thesis by (simp add: eq fallback_def initial_differences_def)
qed

theorem compare_table_data_fallback_witness:
  "normalize_row (\<lambda>x. x) [(''a'', PyOther ''list'' ''[1]'')]
     = Inl (TypeError (unhashable_message ''list''))
   \<and> rows_only_in_db1 (compare_table_data (\<lambda>x. x) [[(''a'', PyOther ''list'' ''[1]'')]] []) = 1
   \<and> rows_only_in_db2 (compare_table_data (\<lambda>x. x) [[(''a'', PyOther ''list'' ''[1]'')]] []) = 0
   \<and> \<not> is_data_identical
         (compare_table_data (\<lambda>x. x) [[(''a'', PyOther ''list'' ''[1]'')]] [])"
proof -
  have f: "normalize_row (\<lambda>x. x) [(''a'', PyOther ''list'' ''[1]'')]
      = Inl (TypeError (unhashable_message ''list''))"
    by (simp add: normalize_row_def normalized_def)
  have m: "[(''a'', PyOther ''list'' ''[1]'')]
      \<in> set [[(''a'', PyOther ''list'' ''[1]'')]] \<union> set []"
    by simp
  show ?thesis using compare_table_data_fallback [OF m f] f by simp
qed

subsection \<open>Order of the rows\<close>

text \<open>
  Claim C8. Reordering the rows of either list changes none of the counts that
  \<^verbatim>\<open>compare_table_data\<close> reports: rows only in the first list, rows only in the second
  list, identical rows, and the row-count-match flag.
\<close>

theorem compare_table_data_permutation:
  assumes "mset data1 = mset data1'" and "mset data2 = mset data2'"
  shows "rows_only_in_db1 (compare_table_data rnd data1 data2)
           = rows_only_in_db1 (compare_table_data rnd data1' data2')
       \<and> rows_only_in_db2 (compare_table_data rnd data1 data2)
           = rows_only_in_db2 (compare_table_data rnd data1' data2')
       \<and> identical_rows (compare_table_data rnd data1 data2)
           = identical_rows (compare_table_data rnd data1' data2')
       \<and> row_count_match (compare_table_data rnd data1 data2)
           = row_count_match (compare_table_data rnd data1' data2')"
proof -
  have l1: "length data1 = length data1'" using assms(1) by (rule mset_eq_length)
  have l2: "length data2 = length data2'" using assms(2) by (rule mset_eq_length)
  have s1: "set data1 = set data1'" using assms(1) by (rule mset_eq_setD)
  have s2: "set data2 = set data2'" using assms(2) by (rule mset_eq_setD)
  have h1: "list_all hashable_row data1 = list_all hashable_row data1'"
    using s1 by (simp add: list_all_iff)
  have h2: "list_all hashable_row data2 = list_all hashable_row data2'"
    using s2 by (simp add: list_all_iff)
  show ?thesis
  proof (cases "data1 = [] \<and> data2 = []")
    case True
    then have "data1' = [] \<and> data2' = []" using l1 l2 by simp
    with True show ?thesis by simp
  next
    case ne: False
    then have ne': "data1' \<noteq> [] \<or> data2' \<noteq> []" using l1 l2 by auto
    show ?thesis
    proof (cases "list_all hashable_row data1 \<and> list_all hashable_row data2")
      case True
      then have "list_all hashable_row data1'" "list_all hashable_row data2'"
        using h1 h2 by simp_all
      from compare_table_data_hashable[OF this ne', of rnd]
        compare_table_data_hashable[of data1 data2 rnd] True ne
      show ?thesis using s1 s2 l1 l2 by (simp add: initial_differences_def)
    next
      case False
      then have "\<not> (list_all hashable_row data1' \<and> list_all hashable_row data2')"
        using h1 h2 by simp
      from compare_table_data_unhashable[OF this, of rnd]
        compare_table_data_unhashable[OF False, of rnd]
      show ?thesis using l1 l2 by (auto simp: fallback_def initial_differences_def)
    qed
  qed
qed

theorem compare_table_data_permutation_witness:
  "mset [[(''a'', PyInt 1)], [(''a'', PyInt 2)]] = mset [[(''a'', PyInt 2)], [(''a'', PyInt 1)]]
   \<and> rows_only_in_db1
        (compare_table_data (\<lambda>x. x) [[(''a'', PyInt 1)], [(''a'', PyInt 2)]] [[(''a'', PyInt 2)]])
     = rows_only_in_db1
        (compare_table_data (\<lambda>x. x) [[(''a'', PyInt 2)], [(''a'', PyInt 1)]] [[(''a'', PyInt 2)]])
   \<and> rows_only_in_db1
        (compare_table_data (\<lambda>x. x) [[(''a'', PyInt 1)], [(''a'', PyInt 2)]] [[(''a'', PyInt 2)]])
     = 1"
proof -
  have m: "mset [[(''a'', PyInt 1)], [(''a'', PyInt 2)]]
      = mset [[(''a'', PyInt 2)], [(''a'', PyInt 1)]]"
    by simp
  have v: "rows_only_in_db1
      (compare_table_data (\<lambda>x. x) [[(''a'', PyInt 1)], [(''a'', PyInt 2)]] [[(''a'', PyInt 2)]])
      = 1"
    by (simp add: compare_table_data_def initial_differences_def normalize_row_def
        normalized_def)
  show ?thesis
    using compare_table_data_permutation [OF m refl, of "\<lambda>x. x" "[[(''a'', PyInt 2)]]"] m v
    by simp
qed

section \<open>Properties of dictionaries\<close>


lemma keys_dict_set: "fst ` set (dict_set d k v) = insert k (fst ` set d)"
  by (induction d k v rule: dict_set.induct) auto

lemma distinct_dict_set: "distinct (map fst d) \<Longrightarrow> distinct (map fst (dict_set d k v))"
  by (induction d k v rule: dict_set.induct) (auto simp: keys_dict_set)



lemma distinct_foldl_dict_set:
  "distinct (map fst d) \<Longrightarrow> distinct (map fst (foldl (\<lambda>d x. dict_set d (f x) x) d xs))"
  by (induction xs arbitrary: d) (simp_all add: distinct_dict_set)

lemma distinct_dict_by: "distinct (map fst (dict_by f xs))"
  by (simp add: dict_by_def distinct_foldl_dict_set)


lemma dict_by_entry: "(k, c) \<in> set (dict_by f xs) \<longleftrightarrow> map_of (dict_by f xs) k = Some c"
  using distinct_dict_by[of f xs] by simp



section \<open>Properties of the schema differ\<close>

lemma concat_map_empty: "concat (map g xs) = [] \<longleftrightarrow> (\<forall>x\<in>set xs. g x = [])"
  by (induction xs) auto

lemma differences1_empty:
  "concat (map (\<lambda>(cname, c1). if \<not> dict_contains d2 cname then [m1 cname] else []) d1) = []
     \<longleftrightarrow> (\<forall>(k, c)\<in>set d1. map_of d2 k \<noteq> None)"
  by (auto simp: concat_map_empty dict_contains_def split: if_splits)

lemma differences3_empty:
  "concat (map (\<lambda>(cname, c1). case map_of d2 cname of None \<Rightarrow> []
        | Some c2 \<Rightarrow> if c1 \<noteq> c2 then [m3 cname c1 c2] else []) d1) = []
     \<longleftrightarrow> (\<forall>(k, c1)\<in>set d1. \<forall>c2. map_of d2 k = Some c2 \<longrightarrow> c1 = c2)"
  by (auto simp: concat_map_empty split: option.splits if_splits)

lemma compare_schemas_fst:
  "fst (compare_schemas schema1 schema2) \<longleftrightarrow>
      (\<forall>(k, c)\<in>set (dict_by col_name schema1). map_of (dict_by col_name schema2) k \<noteq> None)
    \<and> (\<forall>(k, c)\<in>set (dict_by col_name schema2). map_of (dict_by col_name schema1) k \<noteq> None)
    \<and> (\<forall>(k, c1)\<in>set (dict_by col_name schema1).
          \<forall>c2. map_of (dict_by col_name schema2) k = Some c2 \<longrightarrow> c1 = c2)"
  unfolding compare_schemas_def Let_def fst_conv length_0_conv append_is_Nil_conv
    differences1_empty differences3_empty
  by (rule refl)

text \<open>The schemas match exactly when the two name-keyed dictionaries are the same
  mapping.\<close>

lemma compare_schemas_matches_iff:
  "fst (compare_schemas schema1 schema2) \<longleftrightarrow>
     map_of (dict_by col_name schema1) = map_of (dict_by col_name schema2)"
proof -
  let ?m1 = "map_of (dict_by col_name schema1)" and ?m2 = "map_of (dict_by col_name schema2)"
  have "fst (compare_schemas schema1 schema2) \<longleftrightarrow>
      (\<forall>k c. ?m1 k = Some c \<longrightarrow> ?m2 k \<noteq> None)
    \<and> (\<forall>k c. ?m2 k = Some c \<longrightarrow> ?m1 k \<noteq> None)
    \<and> (\<forall>k c1. ?m1 k = Some c1 \<longrightarrow> (\<forall>c2. ?m2 k = Some c2 \<longrightarrow> c1 = c2))"
    unfolding compare_schemas_fst by (simp add: dict_by_entry split_beta Ball_def)
  also have "\<dots> \<longleftrightarrow> ?m1 = ?m2"
  proof
    assume a: "(\<forall>k c. ?m1 k = Some c \<longrightarrow> ?m2 k \<noteq> None)
    \<and> (\<forall>k c. ?m2 k = Some c \<longrightarrow> ?m1 k \<noteq> None)
    \<and> (\<forall>k c1. ?m1 k = Some c1 \<longrightarrow> (\<forall>c2. ?m2 k = Some c2 \<longrightarrow> c1 = c2))"
    show "?m1 = ?m2"
    proof
      fix k
      show "?m1 k = ?m2 k"
        using a by (cases "?m1 k"; cases "?m2 k") auto
    qed
  next
    assume "?m1 = ?m2"
    then show "(\<forall>k c. ?m1 k = Some c \<longrightarrow> ?m2 k \<noteq> None)
    \<and> (\<forall>k c. ?m2 k = Some c \<longrightarrow> ?m1 k \<noteq> None)
    \<and> (\<forall>k c1. ?m1 k = Some c1 \<longrightarrow> (\<forall>c2. ?m2 k = Some c2 \<longrightarrow> c1 = c2))"
      by simp
  qed
  finally show ?thesis .
qed




text \<open>
  The position \<open>cid\<close> of a column is a field of its row, and line 188 compares whole
  rows. Two tables that declare the same columns in a different order therefore do not
  match, although the messages show equal types.
\<close>

lemma compare_schemas_declared_position:
  "compare_schemas [column 0 ''a'' ''INT'', column 1 ''b'' ''TEXT'']
                   [column 0 ''b'' ''TEXT'', column 1 ''a'' ''INT'']
     = (False,
        [''Column '' @ quoted ''a'' @ '' has different definitions: DB1=INT vs DB2=INT'',
         ''Column '' @ quoted ''b'' @ '' has different definitions: DB1=TEXT vs DB2=TEXT''])"
  by (simp add: compare_schemas_def dict_by_def dict_contains_def column_def)

section \<open>Properties of the table comparator\<close>

lemma tables_execute [simp]: "tables (execute conn sql) = tables conn"
  by (simp add: execute_def)

lemma master_execute [simp]: "master (execute conn sql) = master conn"
  by (simp add: execute_def)

lemma executed_execute [simp]: "executed (execute conn sql) = executed conn @ [sql]"
  by (simp add: execute_def)

subsection \<open>The four ways through \<^verbatim>\<open>compare_table\<close>\<close>

lemma compare_table_match:
  assumes "map_of (tables conn1) tname = Some t1" and "map_of (tables conn2) tname = Some t2"
    and "fst (compare_schemas (tbl_columns t1) (tbl_columns t2))"
  shows "compare_table rnd conn1 conn2 tname =
     (execute (execute (execute conn1 (table_info_sql tname)) (count_sql tname))
        (select_sql tname),
      execute (execute (execute conn2 (table_info_sql tname)) (count_sql tname))
        (select_sql tname),
      Inr (fetched_comparison rnd tname t1 t2))"
  using assms
  by (simp add: compare_table_def get_table_schema_def get_row_count_def get_table_data_def
      fetched_comparison_def rows_of_def Let_def split_beta)

lemma compare_table_mismatch:
  assumes "map_of (tables conn1) tname = Some t1" and "map_of (tables conn2) tname = Some t2"
    and "\<not> fst (compare_schemas (tbl_columns t1) (tbl_columns t2))"
  shows "compare_table rnd conn1 conn2 tname =
     (execute (execute conn1 (table_info_sql tname)) (count_sql tname),
      execute (execute conn2 (table_info_sql tname)) (count_sql tname),
      Inr (counted_comparison tname t1 t2))"
  using assms
  by (simp add: compare_table_def get_table_schema_def get_row_count_def get_table_data_def
      counted_comparison_def Let_def split_beta)

lemma compare_table_missing1:
  assumes "map_of (tables conn1) tname = None"
  shows "compare_table rnd conn1 conn2 tname =
     (execute (execute conn1 (table_info_sql tname)) (count_sql tname),
      execute conn2 (table_info_sql tname),
      Inl (no_such_table tname))"
  using assms
  by (simp add: compare_table_def get_table_schema_def get_row_count_def Let_def split_beta)

lemma compare_table_missing2:
  assumes "map_of (tables conn1) tname = Some t1" and "map_of (tables conn2) tname = None"
  shows "compare_table rnd conn1 conn2 tname =
     (execute (execute conn1 (table_info_sql tname)) (count_sql tname),
      execute (execute conn2 (table_info_sql tname)) (count_sql tname),
      Inl (no_such_table tname))"
  using assms
  by (simp add: compare_table_def get_table_schema_def get_row_count_def Let_def split_beta)

lemma compare_table_cases:
  obtains
    (match) t1 t2 where
      "map_of (tables conn1) tname = Some t1" "map_of (tables conn2) tname = Some t2"
      "fst (compare_schemas (tbl_columns t1) (tbl_columns t2))"
      "compare_table rnd conn1 conn2 tname =
        (execute (execute (execute conn1 (table_info_sql tname)) (count_sql tname))
           (select_sql tname),
         execute (execute (execute conn2 (table_info_sql tname)) (count_sql tname))
           (select_sql tname),
         Inr (fetched_comparison rnd tname t1 t2))"
  | (mismatch) t1 t2 where
      "map_of (tables conn1) tname = Some t1" "map_of (tables conn2) tname = Some t2"
      "\<not> fst (compare_schemas (tbl_columns t1) (tbl_columns t2))"
      "compare_table rnd conn1 conn2 tname =
        (execute (execute conn1 (table_info_sql tname)) (count_sql tname),
         execute (execute conn2 (table_info_sql tname)) (count_sql tname),
         Inr (counted_comparison tname t1 t2))"
  | (missing) conn1' conn2' where
      "map_of (tables conn1) tname = None \<or> map_of (tables conn2) tname = None"
      "compare_table rnd conn1 conn2 tname = (conn1', conn2', Inl (no_such_table tname))"
      "tables conn1' = tables conn1" "tables conn2' = tables conn2"
proof (cases "map_of (tables conn1) tname")
  case None
  from compare_table_missing1[OF None, of rnd conn2] show ?thesis
    using None
    by (intro missing[of "execute (execute conn1 (table_info_sql tname)) (count_sql tname)"
          "execute conn2 (table_info_sql tname)"]) simp_all
next
  case s1: (Some t1)
  show ?thesis
  proof (cases "map_of (tables conn2) tname")
    case None
    from compare_table_missing2[OF s1 None, of rnd] show ?thesis
      using None
      by (intro missing[of "execute (execute conn1 (table_info_sql tname)) (count_sql tname)"
            "execute (execute conn2 (table_info_sql tname)) (count_sql tname)"]) simp_all
  next
    case s2: (Some t2)
    show ?thesis
    proof (cases "fst (compare_schemas (tbl_columns t1) (tbl_columns t2))")
      case True
      from compare_table_match[OF s1 s2 True, of rnd] show ?thesis
        using s1 s2 True by (intro match)
    next
      case False
      from compare_table_mismatch[OF s1 s2 False, of rnd] show ?thesis
        using s1 s2 False by (intro mismatch)
    qed
  qed
qed

text \<open>A table present on both sides is always compared to the end.\<close>

lemma compare_table_returns:
  assumes "map_of (tables conn1) tname = Some t1" and "map_of (tables conn2) tname = Some t2"
  shows "\<exists>conn1' conn2' comparison.
           compare_table rnd conn1 conn2 tname = (conn1', conn2', Inr comparison)"
  using assms compare_table_match[of conn1 tname t1 conn2 t2 rnd]
    compare_table_mismatch[of conn1 tname t1 conn2 t2 rnd]
  by (cases "fst (compare_schemas (tbl_columns t1) (tbl_columns t2))") auto

lemma select_sql_not_table_info: "select_sql tname \<noteq> table_info_sql tname'"
  by (simp add: select_sql_def table_info_sql_def)

lemma select_sql_not_count: "select_sql tname \<noteq> count_sql tname'"
  by (simp add: select_sql_def count_sql_def)

lemma fetched_comparison_fields:
  "schema_match (fetched_comparison rnd tname t1 t2)"
  "data_differences (fetched_comparison rnd tname t1 t2)
     = Some (compare_table_data rnd (rows_of t1) (rows_of t2))"
  by (simp_all add: fetched_comparison_def determine_identical_def new_table_comparison_def)

lemma counted_comparison_fields:
  "\<not> schema_match (counted_comparison tname t1 t2)"
  "data_differences (counted_comparison tname t1 t2) = None"
  "\<not> is_identical (counted_comparison tname t1 t2)"
  "row_count_db1 (counted_comparison tname t1 t2) = length (tbl_rows t1)"
  "row_count_db2 (counted_comparison tname t1 t2) = length (tbl_rows t2)"
  by (simp_all add: counted_comparison_def determine_identical_def new_table_comparison_def)

text \<open>No path through \<^verbatim>\<open>compare_table\<close> assigns the two exists flags: they keep
  the default of the dataclass.\<close>

lemma compare_table_exists_flags:
  assumes "compare_table rnd conn1 conn2 tname = (conn1', conn2', Inr comparison)"
  shows "exists_in_db1 comparison \<and> exists_in_db2 comparison"
  using assms
  by (cases rule: compare_table_cases[of conn1 tname conn2 rnd])
    (auto simp: fetched_comparison_def counted_comparison_def determine_identical_def
      new_table_comparison_def)

subsection \<open>Row data only when the schemas match\<close>

text \<open>
  Claim C4. Whenever \<^verbatim>\<open>compare_table\<close> returns a comparison: the statement
  \<^verbatim>\<open>SELECT * FROM [table]\<close> is executed on each connection during the call if and only
  if the schemas match; the schema verdict is the one of \<^verbatim>\<open>compare_schemas\<close> on the two
  fetched schemas; when the schemas match, \<open>data_differences\<close> is the result of
  \<^verbatim>\<open>compare_table_data\<close> on the rows fetched from the two sides; when they do not,
  \<open>data_differences\<close> stays empty, the two row counts are the ones the count queries
  return, and the table is not identical.
\<close>

theorem compare_table_fetches_iff_schemas_match:
  assumes "compare_table rnd conn1 conn2 tname = (conn1', conn2', Inr comparison)"
  shows "(select_sql tname \<in> set (statements_run conn1 conn1') \<longleftrightarrow> schema_match comparison)
       \<and> (select_sql tname \<in> set (statements_run conn2 conn2') \<longleftrightarrow> schema_match comparison)
       \<and> schema_match comparison
           = fst (compare_schemas (snd (get_table_schema conn1 tname))
                                  (snd (get_table_schema conn2 tname)))
       \<and> (schema_match comparison \<longrightarrow>
            (\<exists>data1 data2. snd (get_table_data conn1 tname) = Inr data1
               \<and> snd (get_table_data conn2 tname) = Inr data2
               \<and> data_differences comparison = Some (compare_table_data rnd data1 data2)))
       \<and> (\<not> schema_match comparison \<longrightarrow>
            data_differences comparison = None
            \<and> snd (get_row_count conn1 tname) = Inr (row_count_db1 comparison)
            \<and> snd (get_row_count conn2 tname) = Inr (row_count_db2 comparison)
            \<and> \<not> is_identical comparison)"
proof (cases rule: compare_table_cases[of conn1 tname conn2 rnd])
  case (match t1 t2)
  with assms have c1: "conn1' = execute (execute (execute conn1 (table_info_sql tname))
      (count_sql tname)) (select_sql tname)"
    and c2: "conn2' = execute (execute (execute conn2 (table_info_sql tname))
      (count_sql tname)) (select_sql tname)"
    and c: "comparison = fetched_comparison rnd tname t1 t2" by simp_all
  show ?thesis
    unfolding c1 c2 c
    using match(1,2,3)
    by (simp add: statements_run_def fetched_comparison_fields get_table_schema_def
        get_table_data_def rows_of_def)
next
  case (mismatch t1 t2)
  with assms have c1: "conn1' = execute (execute conn1 (table_info_sql tname))
      (count_sql tname)"
    and c2: "conn2' = execute (execute conn2 (table_info_sql tname)) (count_sql tname)"
    and c: "comparison = counted_comparison tname t1 t2" by simp_all
  show ?thesis
    unfolding c1 c2 c
    using mismatch(1,2,3)
    by (simp add: statements_run_def counted_comparison_fields get_table_schema_def
        get_row_count_def select_sql_not_table_info select_sql_not_count)
next
  case (missing c1 c2)
  with assms show ?thesis by simp
qed

theorem compare_table_fetches_iff_schemas_match_witness:
  "compare_table (\<lambda>x. x) db_a db_b ''users''
     = (execute (execute (execute db_a (table_info_sql ''users'')) (count_sql ''users''))
          (select_sql ''users''),
        execute (execute (execute db_b (table_info_sql ''users'')) (count_sql ''users''))
          (select_sql ''users''),
        Inr (fetched_comparison (\<lambda>x. x) ''users'' users_table users_table))
   \<and> schema_match (fetched_comparison (\<lambda>x. x) ''users'' users_table users_table)
   \<and> select_sql ''users''
       \<in> set (statements_run db_a
           (execute (execute (execute db_a (table_info_sql ''users'')) (count_sql ''users''))
              (select_sql ''users'')))"
proof -
  have t1: "map_of (tables db_a) ''users'' = Some users_table" by (simp add: db_a_def)
  have t2: "map_of (tables db_b) ''users'' = Some users_table" by (simp add: db_b_def)
  have m: "fst (compare_schemas (tbl_columns users_table) (tbl_columns users_table))"
    by (simp add: compare_schemas_matches_iff)
  note run = compare_table_match [OF t1 t2 m, of "\<lambda>x. x"]
  show ?thesis
    using compare_table_fetches_iff_schemas_match [OF run] run
    by (simp add: fetched_comparison_fields)
qed

subsection \<open>The loop over the common tables\<close>




text \<open>A table of the list that is gone when queried stops the loop with the error of
  the driver.\<close>

lemma compare_common_missing:
  assumes "t \<in> set ts"
    and "map_of (tables conn1) t = None \<or> map_of (tables conn2) t = None"
  shows "\<exists>conn1' conn2' t'. t' \<in> set ts
       \<and> (map_of (tables conn1) t' = None \<or> map_of (tables conn2) t' = None)
       \<and> compare_common rnd conn1 conn2 ts comparison
           = (conn1', conn2', Inl (no_such_table t'))"
  using assms
proof (induction ts arbitrary: conn1 conn2 comparison)
  case Nil
  then show ?case by simp
next
  case (Cons u ts)
  show ?case
  proof (cases rule: compare_table_cases[of conn1 u conn2 rnd])
    case (missing c1 c2)
    then have "compare_common rnd conn1 conn2 (u # ts) comparison
        = (c1, c2, Inl (no_such_table u))"
      by simp
    with missing(1) show ?thesis by (intro exI[of _ c1] exI[of _ c2] exI[of _ u]) simp
  next
    case (match t1 t2)
    let ?c1 = "execute (execute (execute conn1 (table_info_sql u)) (count_sql u)) (select_sql u)"
    let ?c2 = "execute (execute (execute conn2 (table_info_sql u)) (count_sql u)) (select_sql u)"
    from match Cons.prems have tin: "t \<in> set ts" by auto
    have gone: "map_of (tables ?c1) t = None \<or> map_of (tables ?c2) t = None"
      using Cons.prems(2) by simp
    from Cons.IH[OF tin gone, of "record_table comparison u (fetched_comparison rnd u t1 t2)"]
    obtain c1' c2' t' where "t' \<in> set ts"
      "map_of (tables ?c1) t' = None \<or> map_of (tables ?c2) t' = None"
      "compare_common rnd ?c1 ?c2 ts (record_table comparison u (fetched_comparison rnd u t1 t2))
         = (c1', c2', Inl (no_such_table t'))" by blast
    then show ?thesis using match(4)
      by (intro exI[of _ c1'] exI[of _ c2'] exI[of _ t']) simp
  next
    case (mismatch t1 t2)
    let ?c1 = "execute (execute conn1 (table_info_sql u)) (count_sql u)"
    let ?c2 = "execute (execute conn2 (table_info_sql u)) (count_sql u)"
    from mismatch Cons.prems have tin: "t \<in> set ts" by auto
    have gone: "map_of (tables ?c1) t = None \<or> map_of (tables ?c2) t = None"
      using Cons.prems(2) by simp
    from Cons.IH[OF tin gone, of "record_table comparison u (counted_comparison u t1 t2)"]
    obtain c1' c2' t' where "t' \<in> set ts"
      "map_of (tables ?c1) t' = None \<or> map_of (tables ?c2) t' = None"
      "compare_common rnd ?c1 ?c2 ts (record_table comparison u (counted_comparison u t1 t2))
         = (c1', c2', Inl (no_such_table t'))" by blast
    then show ?thesis using mismatch(4)
      by (intro exI[of _ c1'] exI[of _ c2'] exI[of _ t']) simp
  qed
qed

text \<open>Conversely, when every table of the list is there on both sides, the loop ends
  with a result.\<close>

lemma compare_common_returns:
  assumes "\<forall>t\<in>set ts. map_of (tables conn1) t \<noteq> None \<and> map_of (tables conn2) t \<noteq> None"
  shows "\<exists>conn1' conn2' r. compare_common rnd conn1 conn2 ts comparison = (conn1', conn2', Inr r)"
  using assms
proof (induction ts arbitrary: conn1 conn2 comparison)
  case Nil
  then show ?case by simp
next
  case (Cons u ts)
  show ?case
  proof (cases rule: compare_table_cases[of conn1 u conn2 rnd])
    case (missing c1 c2)
    with Cons.prems show ?thesis by auto
  next
    case (match t1 t2)
    let ?c1 = "execute (execute (execute conn1 (table_info_sql u)) (count_sql u)) (select_sql u)"
    let ?c2 = "execute (execute (execute conn2 (table_info_sql u)) (count_sql u)) (select_sql u)"
    have "\<forall>t\<in>set ts. map_of (tables ?c1) t \<noteq> None \<and> map_of (tables ?c2) t \<noteq> None"
      using Cons.prems by simp
    from Cons.IH[OF this, of "record_table comparison u (fetched_comparison rnd u t1 t2)"]
    show ?thesis using match(4) by simp
  next
    case (mismatch t1 t2)
    let ?c1 = "execute (execute conn1 (table_info_sql u)) (count_sql u)"
    let ?c2 = "execute (execute conn2 (table_info_sql u)) (count_sql u)"
    have "\<forall>t\<in>set ts. map_of (tables ?c1) t \<noteq> None \<and> map_of (tables ?c2) t \<noteq> None"
      using Cons.prems by simp
    from Cons.IH[OF this, of "record_table comparison u (counted_comparison u t1 t2)"]
    show ?thesis using mismatch(4) by simp
  qed
qed

section \<open>Properties of the database comparator\<close>


lemma get_table_names_execute:
  "snd (get_table_names (execute conn sql)) = snd (get_table_names conn)"
  by (simp add: get_table_names_def)

lemma fst_get_table_names: "fst (get_table_names conn) = execute conn names_sql"
  by (simp add: get_table_names_def)

text \<open>\<^verbatim>\<open>compare_databases\<close> is the classification of the two listings, the loop, and the
  final test of lines 346-347.\<close>

lemma compare_databases_unfold:
  "compare_databases rnd path1 path2 conn1 conn2 =
     (case compare_common rnd (execute conn1 names_sql) (execute conn2 names_sql)
             (filter (\<lambda>t. t \<in> set (snd (get_table_names conn2))) (snd (get_table_names conn1)))
             (classified path1 path2 (snd (get_table_names conn1)) (snd (get_table_names conn2)))
      of (c1, c2, Inl e) \<Rightarrow> (c1, c2, Inl e)
       | (c1, c2, Inr comparison) \<Rightarrow>
           (c1, c2,
            Inr (if tables_only_in_db1 comparison \<noteq> [] \<or> tables_only_in_db2 comparison \<noteq> []
                 then comparison \<lparr> db_is_identical := False \<rparr>
                 else comparison)))"
proof -
  obtain T1 where g1: "get_table_names conn1 = (execute conn1 names_sql, T1)"
    by (simp add: get_table_names_def)
  obtain T2 where g2: "get_table_names conn2 = (execute conn2 names_sql, T2)"
    by (simp add: get_table_names_def)
  show ?thesis
    unfolding compare_databases_def classified_def Let_def g1 g2
    by (simp split: prod.splits sum.splits)
qed



subsection \<open>The statements of a run\<close>






subsection \<open>The overall verdict\<close>



subsection \<open>A table that is gone when queried\<close>

text \<open>
  Claim C2 says that a table listed during enumeration and gone when queried yields a
  per-table entry with a lowered exists flag, that the run goes on, and that no
  exception leaves the engine. In the code neither \<^verbatim>\<open>compare_table\<close> nor
  \<^verbatim>\<open>compare_databases\<close> catches anything, and nothing ever assigns
  \<^verbatim>\<open>exists_in_db1\<close> or \<^verbatim>\<open>exists_in_db2\<close>: with \<open>users\<close> listed on both sides and
  dropped from the second database, the count query raises and
  \<^verbatim>\<open>compare_databases\<close> returns no result.
\<close>

theorem compare_databases_table_vanished_counterexample:
  "snd (snd (compare_databases (\<lambda>x. x) ''a.db'' ''b.db'' db_a db_dropped))
     = Inl (OperationalError ''no such table: users'')"
  by (simp add: evaluate_comparison)

text \<open>
  Claim C2, amended. If a table listed on both sides no longer exists in one of the
  databases when it is queried, \<^verbatim>\<open>compare_databases\<close> returns no
  \<^verbatim>\<open>DatabaseComparison\<close>: the \<^verbatim>\<open>OperationalError\<close> "no such table" of the first such
  table the loop meets leaves the comparison engine.
\<close>

theorem compare_databases_table_vanished:
  assumes "t \<in> set (snd (get_table_names conn1))" and "t \<in> set (snd (get_table_names conn2))"
    and "map_of (tables conn1) t = None \<or> map_of (tables conn2) t = None"
  shows "\<exists>conn1' conn2' t'.
           t' \<in> set (snd (get_table_names conn1)) \<inter> set (snd (get_table_names conn2))
           \<and> (map_of (tables conn1) t' = None \<or> map_of (tables conn2) t' = None)
           \<and> compare_databases rnd path1 path2 conn1 conn2
               = (conn1', conn2', Inl (no_such_table t'))"
proof -
  let ?T1 = "snd (get_table_names conn1)" and ?T2 = "snd (get_table_names conn2)"
  let ?common = "filter (\<lambda>t. t \<in> set ?T2) ?T1"
  have tin: "t \<in> set ?common" using assms(1,2) by simp
  have gone: "map_of (tables (execute conn1 names_sql)) t = None
      \<or> map_of (tables (execute conn2 names_sql)) t = None"
    using assms(3) by simp
  from compare_common_missing[OF tin gone, of rnd "classified path1 path2 ?T1 ?T2"]
  obtain c1 c2 t' where t': "t' \<in> set ?common"
    "map_of (tables conn1) t' = None \<or> map_of (tables conn2) t' = None"
    "compare_common rnd (execute conn1 names_sql) (execute conn2 names_sql) ?common
        (classified path1 path2 ?T1 ?T2) = (c1, c2, Inl (no_such_table t'))"
    by auto
  then have "compare_databases rnd path1 path2 conn1 conn2 = (c1, c2, Inl (no_such_table t'))"
    by (simp add: compare_databases_unfold)
  with t'(1,2) show ?thesis by auto
qed

theorem compare_databases_table_vanished_witness:
  "''users'' \<in> set (snd (get_table_names db_a))
   \<and> ''users'' \<in> set (snd (get_table_names db_dropped))
   \<and> map_of (tables db_dropped) ''users'' = None
   \<and> (\<exists>conn1' conn2' t'.
         compare_databases (\<lambda>x. x) ''a.db'' ''b.db'' db_a db_dropped
           = (conn1', conn2', Inl (no_such_table t')))"
proof -
  have a: "''users'' \<in> set (snd (get_table_names db_a))"
    by (simp add: get_table_names_def db_a_def like_sqlite_prefix_def)
  have b: "''users'' \<in> set (snd (get_table_names db_dropped))"
    by (simp add: get_table_names_def db_dropped_def like_sqlite_prefix_def)
  have c: "map_of (tables db_dropped) ''users'' = None"
    by (simp add: db_dropped_def)
  then have c': "map_of (tables db_a) ''users'' = None \<or> map_of (tables db_dropped) ''users'' = None"
    by simp
  from compare_databases_table_vanished [OF a b c', of "\<lambda>x. x" "''a.db''" "''b.db''"]
  show ?thesis using a b c by blast
qed

section \<open>Properties of the difference analyzer\<close>

subsection \<open>An empty side\<close>

text \<open>
  Claim C10. If either row list is empty, \<^verbatim>\<open>analyze_row_differences\<close> returns an
  analysis whose lists of type mismatches and of sample rows of both sides are empty
  and whose \<open>is_type_only_difference\<close> is false, whatever the other list holds.
\<close>

theorem analyze_row_differences_empty_side:
  assumes "data1 = [] \<or> data2 = []"
  shows "type_mismatches (analyze_row_differences fstr bstr data1 data2 tname max_samples) = []
       \<and> sample_rows_db1_only
            (analyze_row_differences fstr bstr data1 data2 tname max_samples) = []
       \<and> sample_rows_db2_only
            (analyze_row_differences fstr bstr data1 data2 tname max_samples) = []
       \<and> \<not> is_type_only_difference
            (analyze_row_differences fstr bstr data1 data2 tname max_samples)"
  using assms by (auto simp: analyze_row_differences_def initial_analysis_def)

theorem analyze_row_differences_empty_side_witness:
  "sample_rows_db1_only
     (analyze_row_differences (\<lambda>r. []) (\<lambda>b. []) numbers_as_int [] ''t'' 5) = []
   \<and> \<not> is_type_only_difference
        (analyze_row_differences (\<lambda>r. []) (\<lambda>b. []) numbers_as_int [] ''t'' 5)"
proof -
  have e: "numbers_as_int = [] \<or> ([] :: row list) = []" by simp
  show ?thesis
    using analyze_row_differences_empty_side
      [OF e, of "\<lambda>r. []" "\<lambda>b. []" "''t''" 5]
    by simp
qed

subsection \<open>The type-only flag\<close>

text \<open>The list of recorded mismatches is non-empty after a loop exactly when it was so
  before, or the bound is positive and the loop meets a mismatch.\<close>

lemma scan_columns_found:
  "snd (scan_columns fstr bstr n row1 row2 cols (cnt, found)) \<noteq> [] \<longleftrightarrow>
     found \<noteq> [] \<or> (0 < n \<and> list_ex (type_differs fstr bstr row1 row2) cols)"
  by (induction cols arbitrary: cnt found) auto

lemma scan_rows_found:
  "snd (scan_rows fstr bstr n columns d2 items st) \<noteq> [] \<longleftrightarrow>
     snd st \<noteq> [] \<or> (0 < n \<and> mismatch_among fstr bstr columns d2 items)"
proof (induction items arbitrary: st)
  case Nil
  then show ?case by (simp add: mismatch_among_def)
next
  case (Cons item items)
  obtain key1 row1 where item: "item = (key1, row1)" by (cases item)
  show ?case
  proof (cases "map_of d2 key1")
    case None
    then show ?thesis using Cons.IH[of st] item by (simp add: mismatch_among_def)
  next
    case (Some row2)
    obtain cnt found where st: "st = (cnt, found)" by (cases st)
    show ?thesis
      using Cons.IH[of "scan_columns fstr bstr n row1 row2 columns (cnt, found)"] item Some st
        scan_columns_found[of fstr bstr n row1 row2 columns cnt found]
      by (auto simp: mismatch_among_def)
  qed
qed

text \<open>
  Claim C7 says that \<open>is_type_only_difference\<close> is true if and only if some type
  mismatch exists among the rows whose lookup key is on both sides and no key is on one
  side only, for every sample bound. The loop of line 749 looks at the first
  \<open>2 * max_samples\<close> keys of side 1 only: with a bound of 1 and three rows on each
  side under the same keys, a mismatch in the third row is not seen and the flag stays
  false.
\<close>

theorem analyze_row_differences_type_only_counterexample:
  "type_mismatch_exists (\<lambda>r. []) (\<lambda>b. []) numbers_as_int numbers_last_as_text
   \<and> keys_only_in (\<lambda>r. []) (\<lambda>b. []) numbers_as_int numbers_last_as_text = []
   \<and> keys_only_in (\<lambda>r. []) (\<lambda>b. []) numbers_last_as_text numbers_as_int = []
   \<and> \<not> is_type_only_difference
        (analyze_row_differences (\<lambda>r. []) (\<lambda>b. []) numbers_as_int numbers_last_as_text ''t'' 1)"
  by (simp add: evaluate_analysis)

text \<open>
  Claim C7, amended. \<open>is_type_only_difference\<close> is true if and only if the sample
  bound is positive, a type mismatch (texts equal, types different, in a column of the
  first row of side 1) exists between the rows of the two sides under one of the first
  \<open>2 * max_samples\<close> lookup keys of side 1, and no lookup key is on one side only.
  Under a key that several rows of a side share, the last such row is the one compared.
\<close>

theorem analyze_row_differences_type_only:
  "is_type_only_difference (analyze_row_differences fstr bstr data1 data2 tname max_samples)
     \<longleftrightarrow> 0 < max_samples
        \<and> type_mismatch_scanned fstr bstr data1 data2 max_samples
        \<and> keys_only_in fstr bstr data1 data2 = []
        \<and> keys_only_in fstr bstr data2 data1 = []"
proof (cases "data1 = [] \<or> data2 = []")
  case True
  then show ?thesis
  proof
    assume "data1 = []"
    then show ?thesis
      by (simp add: analyze_row_differences_def initial_analysis_def type_mismatch_scanned_def
          mismatch_among_def dict_by_def)
  next
    assume d2: "data2 = []"
    show ?thesis
    proof (cases "data1 = []")
      case True
      then show ?thesis
        by (simp add: analyze_row_differences_def initial_analysis_def type_mismatch_scanned_def
            mismatch_among_def dict_by_def)
    next
      case False
      then have "type_mismatch_scanned fstr bstr data1 data2 max_samples = False"
        using d2 by (simp add: type_mismatch_scanned_def mismatch_among_def dict_by_def
            list_ex_iff split_beta)
      then show ?thesis using d2
        by (simp add: analyze_row_differences_def initial_analysis_def)
    qed
  qed
next
  case False
  have pre: "0 < max_samples \<Longrightarrow>
      py_prefix (max_samples * 2) (dict_by (create_lookup_key fstr bstr) data1)
        = take (nat (max_samples * 2)) (dict_by (create_lookup_key fstr bstr) data1)"
    by (simp add: py_prefix_def)
  have sr: "snd (scan_rows fstr bstr max_samples (first_columns data1)
        (dict_by (create_lookup_key fstr bstr) data2)
        (py_prefix (max_samples * 2) (dict_by (create_lookup_key fstr bstr) data1)) (0, []))
        \<noteq> [] \<longleftrightarrow>
        0 < max_samples \<and> type_mismatch_scanned fstr bstr data1 data2 max_samples"
    using pre by (auto simp: scan_rows_found type_mismatch_scanned_def)
  show ?thesis
    using False sr
    by (simp add: analyze_row_differences_def initial_analysis_def Let_def split_beta
        first_columns_def[symmetric] keys_only_in_def)
qed

theorem analyze_row_differences_type_only_witness:
  "type_mismatch_scanned (\<lambda>r. []) (\<lambda>b. []) numbers_as_int numbers_last_as_text 5
   \<and> is_type_only_difference
       (analyze_row_differences (\<lambda>r. []) (\<lambda>b. []) numbers_as_int numbers_last_as_text ''t'' 5)"
proof -
  have s: "type_mismatch_scanned (\<lambda>r. []) (\<lambda>b. []) numbers_as_int numbers_last_as_text 5"
    by (simp add: evaluate_analysis)
  have k1: "keys_only_in (\<lambda>r. []) (\<lambda>b. []) numbers_as_int numbers_last_as_text = []"
    by (simp add: evaluate_analysis)
  have k2: "keys_only_in (\<lambda>r. []) (\<lambda>b. []) numbers_last_as_text numbers_as_int = []"
    by (simp add: evaluate_analysis)
  show ?thesis
    using analyze_row_differences_type_only
      [of "\<lambda>r. []" "\<lambda>b. []" numbers_as_int numbers_last_as_text "''t''" 5] s k1 k2
    by simp
qed

section \<open>The rounded value of a float\<close>

text \<open>
  What the comparison sees of a float is its image under \<^verbatim>\<open>round(value, 10)\<close>: two
  rows with one float column are the same member of a row set exactly when the rounded
  values are equal. Which floats have equal rounded values is a matter of Python's
  floating-point arithmetic, outside this development.
\<close>

lemma normalize_row_float:
  "normalize_row rnd [(key, PyFloat x)] = normalize_row rnd [(key, PyFloat y)]
     \<longleftrightarrow> rnd x = rnd y"
  by (simp add: normalize_row_def normalized_def)

end
